theory Spec2Isabelle
  imports Main "HOL-Library.Word" "HOL-Library.Multiset"
begin

unbundle bit_operations_syntax

section \<open>Data model\<close>

text \<open>
  The bridge of \<^verbatim>\<open>protoc.go\<close> drives a WebAssembly reactor module through
  the exports \<^verbatim>\<open>malloc\<close>, \<^verbatim>\<open>free\<close>, \<^verbatim>\<open>protoc_init\<close>, \<^verbatim>\<open>protoc_run\<close> and
  \<^verbatim>\<open>protoc_destroy\<close>, and through the linear memory of the module.  Guest pointers
  are \<^verbatim>\<open>uint32\<close>, the value slots of the engine's calling convention are
  \<^verbatim>\<open>uint64\<close>, and memory holds bytes.
\<close>

type_synonym byte = "8 word"
type_synonym u32 = "32 word"
type_synonym u64 = "64 word"

text \<open>
  Go \<^verbatim>\<open>error\<close> values.  \<open>ErrorsNew s\<close> is \<^verbatim>\<open>errors.New(s)\<close>;
  \<open>Errorf pre e suf\<close> is a \<^verbatim>\<open>fmt.Errorf\<close> whose format wraps \<open>e\<close> with \<^verbatim>\<open>%w\<close>
  between the literal text \<open>pre\<close> and \<open>suf\<close>.  \<open>Error\<close> is the method
  \<^verbatim>\<open>err.Error()\<close>.
\<close>

datatype error = ErrorsNew string | Errorf string error string

fun Error :: "error \<Rightarrow> string" where
  "Error (ErrorsNew s) = s"
| "Error (Errorf pre e suf) = pre @ Error e @ suf"

text \<open>The conversion \<^verbatim>\<open>[]byte(s)\<close> of a Go string.\<close>

definition bytes_of_string :: "string \<Rightarrow> byte list" where
  "bytes_of_string s = map of_char s"

text \<open>The conversion \<^verbatim>\<open>string(b)\<close> of a byte slice.\<close>

definition string_of_bytes :: "byte list \<Rightarrow> string" where
  "string_of_bytes bs = map (\<lambda>b. char_of (unat b)) bs"

text \<open>\<^verbatim>\<open>binary.LittleEndian.PutUint32\<close> on a fresh buffer of four bytes.\<close>

definition PutUint32 :: "u32 \<Rightarrow> byte list" where
  "PutUint32 v = [ucast v, ucast (drop_bit 8 v), ucast (drop_bit 16 v), ucast (drop_bit 24 v)]"

text \<open>\<^verbatim>\<open>api.EncodeI32(v)\<close> is \<^verbatim>\<open>uint64(uint32(v))\<close>.\<close>

definition EncodeI32 :: "u32 \<Rightarrow> u64" where
  "EncodeI32 v = ucast v"

text \<open>
  The engine and everything behind it (the guest program, its allocator, its memory, the
  plugin handler configured by the caller) are external to the bridge.  They are a
  deterministic transition system on an arbitrary state \<open>'g\<close>, given by one function for
  each entry point the bridge calls.  A call of an exported function returns the Go pair
  \<^verbatim>\<open>([]uint64, error)\<close>: \<open>Inl err\<close> for a trap, \<open>Inr r\<close> for the single result
  slot the export's signature in \<^verbatim>\<open>embed.go\<close> declares.  The exports without a result
  (\<^verbatim>\<open>free\<close>, \<^verbatim>\<open>protoc_destroy\<close>) and \<^verbatim>\<open>mod.Close\<close> return only the error.
  \<open>memRead\<close> and \<open>memWrite\<close> are \<^verbatim>\<open>Memory().Read\<close> and \<^verbatim>\<open>Memory().Write\<close>:
  a read gives \<open>None\<close> and a write gives \<open>False\<close> when the engine rejects the range.
  The context argument \<^verbatim>\<open>ctx\<close> is handed through unchanged by every function of the
  bridge and is left out here.
\<close>

record 'g engine =
  malloc :: "u64 \<Rightarrow> 'g \<Rightarrow> (error + u64) \<times> 'g"
  free :: "u64 \<Rightarrow> 'g \<Rightarrow> error option \<times> 'g"
  protocInit :: "'g \<Rightarrow> (error + u64) \<times> 'g"
  protocRun :: "u64 \<Rightarrow> u64 \<Rightarrow> 'g \<Rightarrow> (error + u64) \<times> 'g"
  protocDestroy :: "'g \<Rightarrow> error option \<times> 'g"
  memRead :: "u32 \<Rightarrow> u32 \<Rightarrow> 'g \<Rightarrow> byte list option"
  memWrite :: "u32 \<Rightarrow> byte list \<Rightarrow> 'g \<Rightarrow> bool \<times> 'g"
  modClose :: "'g \<Rightarrow> error option \<times> 'g"
  pluginHandler :: "string \<Rightarrow> bool \<Rightarrow> byte list \<Rightarrow> 'g \<Rightarrow> (error + byte list) \<times> 'g"

text \<open>
  Every call the bridge makes into the engine is recorded, in order, with its arguments
  (and, for \<^verbatim>\<open>malloc\<close> and \<^verbatim>\<open>Write\<close>, its outcome).  The record is what the
  statements below about "no call is made" and about outstanding allocations refer to.
\<close>

datatype event =
    CallMalloc u64 "error + u64"
  | CallFree u64
  | CallProtocInit
  | CallProtocRun u64 u64
  | CallProtocDestroy
  | CallModClose
  | MemWrite u32 "byte list" bool
  | CallPluginHandler string bool "byte list"

text \<open>
  The struct \<^verbatim>\<open>Protoc\<close>.  Its function fields are the fixed \<open>'g engine\<close>; what
  changes is the flag \<open>initialized\<close>, the state of the engine and the record of calls.
  \<^verbatim>\<open>NewProtocWithModule\<close> returns an instance only after it has stored the module and
  found all five exports, so \<^verbatim>\<open>p.mod\<close> and \<^verbatim>\<open>p.protocDestroy\<close> are not nil on an
  instance a caller holds.  The mutex \<^verbatim>\<open>mu\<close> serialises \<^verbatim>\<open>Init\<close>, \<^verbatim>\<open>Run\<close> and
  \<^verbatim>\<open>Close\<close>; the model is sequential.
\<close>

record 'g protoc =
  initialized :: bool
  guest :: 'g
  calls :: "event list"

section \<open>Calls into the engine\<close>

definition call_malloc :: "'g engine \<Rightarrow> u64 \<Rightarrow> 'g protoc \<Rightarrow> (error + u64) \<times> 'g protoc" where
  "call_malloc E n p =
     (case malloc E n (guest p) of
        (r, g) \<Rightarrow> (r, p\<lparr>guest := g, calls := calls p @ [CallMalloc n r]\<rparr>))"

definition call_free :: "'g engine \<Rightarrow> u64 \<Rightarrow> 'g protoc \<Rightarrow> error option \<times> 'g protoc" where
  "call_free E x p =
     (case free E x (guest p) of
        (r, g) \<Rightarrow> (r, p\<lparr>guest := g, calls := calls p @ [CallFree x]\<rparr>))"

definition call_protocInit :: "'g engine \<Rightarrow> 'g protoc \<Rightarrow> (error + u64) \<times> 'g protoc" where
  "call_protocInit E p =
     (case protocInit E (guest p) of
        (r, g) \<Rightarrow> (r, p\<lparr>guest := g, calls := calls p @ [CallProtocInit]\<rparr>))"

definition call_protocRun ::
  "'g engine \<Rightarrow> u64 \<Rightarrow> u64 \<Rightarrow> 'g protoc \<Rightarrow> (error + u64) \<times> 'g protoc" where
  "call_protocRun E argc argv p =
     (case protocRun E argc argv (guest p) of
        (r, g) \<Rightarrow> (r, p\<lparr>guest := g, calls := calls p @ [CallProtocRun argc argv]\<rparr>))"

definition call_protocDestroy :: "'g engine \<Rightarrow> 'g protoc \<Rightarrow> error option \<times> 'g protoc" where
  "call_protocDestroy E p =
     (case protocDestroy E (guest p) of
        (r, g) \<Rightarrow> (r, p\<lparr>guest := g, calls := calls p @ [CallProtocDestroy]\<rparr>))"

definition call_modClose :: "'g engine \<Rightarrow> 'g protoc \<Rightarrow> error option \<times> 'g protoc" where
  "call_modClose E p =
     (case modClose E (guest p) of
        (r, g) \<Rightarrow> (r, p\<lparr>guest := g, calls := calls p @ [CallModClose]\<rparr>))"

definition mem_Write :: "'g engine \<Rightarrow> u32 \<Rightarrow> byte list \<Rightarrow> 'g protoc \<Rightarrow> bool \<times> 'g protoc" where
  "mem_Write E addr bs p =
     (case memWrite E addr bs (guest p) of
        (ok, g) \<Rightarrow> (ok, p\<lparr>guest := g, calls := calls p @ [MemWrite addr bs ok]\<rparr>))"

definition call_Communicate ::
  "'g engine \<Rightarrow> string \<Rightarrow> bool \<Rightarrow> byte list \<Rightarrow> 'g protoc \<Rightarrow> (error + byte list) \<times> 'g protoc" where
  "call_Communicate E program searchPath input p =
     (case pluginHandler E program searchPath input (guest p) of
        (r, g) \<Rightarrow>
          (r, p\<lparr>guest := g, calls := calls p @ [CallPluginHandler program searchPath input]\<rparr>))"

section \<open>Memory helpers\<close>

text \<open>\<^verbatim>\<open>allocBytes\<close>, lines 389 to 403.\<close>

definition allocBytes :: "'g engine \<Rightarrow> byte list \<Rightarrow> 'g protoc \<Rightarrow> (error + u32) \<times> 'g protoc" where
  "allocBytes E data p =
     (case call_malloc E (of_nat (length data)) p of
        (Inl err, p1) \<Rightarrow> (Inl err, p1)
      | (Inr res, p1) \<Rightarrow>
          (let ptr = (ucast res :: u32) in
           if ptr = 0 then (Inl (ErrorsNew ''malloc returned null''), p1)
           else
             (case mem_Write E ptr data p1 of
                (False, p2) \<Rightarrow>
                  (Inl (ErrorsNew ''failed to write to memory''), snd (call_free E (ucast ptr) p2))
              | (True, p2) \<Rightarrow> (Inr ptr, p2))))"

text \<open>\<^verbatim>\<open>allocString\<close>, lines 384 to 387: the bytes of the string and a terminating zero.\<close>

definition allocString :: "'g engine \<Rightarrow> string \<Rightarrow> 'g protoc \<Rightarrow> (error + u32) \<times> 'g protoc" where
  "allocString E s p = allocBytes E (bytes_of_string s @ [0]) p"

text \<open>
  The loop of \<^verbatim>\<open>allocArgv\<close>, lines 416 to 420, from index \<open>i\<close> on.  The result of
  \<^verbatim>\<open>Write\<close> is discarded; the address \<^verbatim>\<open>argvPtr+uint32(i*4)\<close> wraps at 32 bits.
\<close>

fun write_ptrs :: "'g engine \<Rightarrow> u32 \<Rightarrow> nat \<Rightarrow> u32 list \<Rightarrow> 'g protoc \<Rightarrow> 'g protoc" where
  "write_ptrs E argvPtr i [] p = p"
| "write_ptrs E argvPtr i (ptr # ptrs) p =
     write_ptrs E argvPtr (Suc i) ptrs
       (snd (mem_Write E (argvPtr + of_nat (i * 4)) (PutUint32 ptr) p))"

text \<open>\<^verbatim>\<open>allocArgv\<close>, lines 405 to 423.\<close>

definition allocArgv :: "'g engine \<Rightarrow> u32 list \<Rightarrow> 'g protoc \<Rightarrow> (error + u32) \<times> 'g protoc" where
  "allocArgv E ptrs p =
     (case call_malloc E (of_nat (length ptrs * 4)) p of
        (Inl err, p1) \<Rightarrow> (Inl err, p1)
      | (Inr res, p1) \<Rightarrow>
          (let argvPtr = (ucast res :: u32) in
           if argvPtr = 0 then (Inl (ErrorsNew ''malloc returned null for argv''), p1)
           else (Inr argvPtr, write_ptrs E argvPtr 0 ptrs p1)))"

text \<open>\<^verbatim>\<open>freePtr\<close>, lines 425 to 429.\<close>

definition freePtr :: "'g engine \<Rightarrow> u32 \<Rightarrow> 'g protoc \<Rightarrow> 'g protoc" where
  "freePtr E ptr p = (if ptr \<noteq> 0 then snd (call_free E (ucast ptr) p) else p)"

text \<open>\<^verbatim>\<open>writePtr\<close> and \<^verbatim>\<open>writeUint32\<close>, lines 431 to 441; both discard the result of the write.\<close>

definition writePtr :: "'g engine \<Rightarrow> u32 \<Rightarrow> u32 \<Rightarrow> 'g protoc \<Rightarrow> 'g protoc" where
  "writePtr E addr v p = snd (mem_Write E addr (PutUint32 v) p)"

definition writeUint32 :: "'g engine \<Rightarrow> u32 \<Rightarrow> u32 \<Rightarrow> 'g protoc \<Rightarrow> 'g protoc" where
  "writeUint32 E addr v p = snd (mem_Write E addr (PutUint32 v) p)"

section \<open>Call dispatcher\<close>

text \<open>\<^verbatim>\<open>Init\<close>, lines 290 to 308.\<close>

definition Init :: "'g engine \<Rightarrow> 'g protoc \<Rightarrow> error option \<times> 'g protoc" where
  "Init E p =
     (if initialized p then (None, p)
      else
        (case call_protocInit E p of
           (Inl err, p1) \<Rightarrow> (Some (Errorf ''protoc_init failed: '' err ''''), p1)
         | (Inr res, p1) \<Rightarrow>
             if (ucast res :: u32) \<noteq> 0 then (Some (ErrorsNew ''protoc_init returned error''), p1)
             else (None, p1\<lparr>initialized := True\<rparr>)))"

text \<open>
  The loops of \<^verbatim>\<open>Run\<close> that free pointers in order: \<^verbatim>\<open>for j := 0; j < i; j++\<close> over
  the pointers stored so far (lines 333 to 335) and \<^verbatim>\<open>for _, ptr := range argPtrs\<close>
  (lines 344 to 346 and 355 to 357).
\<close>

fun free_ptrs :: "'g engine \<Rightarrow> u32 list \<Rightarrow> 'g protoc \<Rightarrow> 'g protoc" where
  "free_ptrs E [] p = p"
| "free_ptrs E (ptr # ptrs) p = free_ptrs E ptrs (freePtr E ptr p)"

text \<open>
  The loop of \<^verbatim>\<open>Run\<close>, lines 329 to 339, over the arguments still to be allocated;
  \<open>argPtrs\<close> holds the pointers \<^verbatim>\<open>argPtrs[0..i-1]\<close> stored so far.  On an error it
  frees them and returns the error.
\<close>

fun alloc_args ::
  "'g engine \<Rightarrow> string list \<Rightarrow> u32 list \<Rightarrow> 'g protoc \<Rightarrow> (error + u32 list) \<times> 'g protoc" where
  "alloc_args E [] argPtrs p = (Inr argPtrs, p)"
| "alloc_args E (arg # rest) argPtrs p =
     (case allocString E arg p of
        (Inl err, p1) \<Rightarrow> (Inl err, free_ptrs E argPtrs p1)
      | (Inr ptr, p1) \<Rightarrow> alloc_args E rest (argPtrs @ [ptr]) p1)"

text \<open>
  \<^verbatim>\<open>Run\<close>, lines 313 to 364.  The result is the Go pair \<^verbatim>\<open>(int, error)\<close>;
  \<^verbatim>\<open>int(int32(results[0]))\<close> reads the low 32 bits of the result slot as a signed value.
\<close>

definition Run ::
  "'g engine \<Rightarrow> string list \<Rightarrow> 'g protoc \<Rightarrow> (int \<times> error option) \<times> 'g protoc" where
  "Run E args0 p =
     (if \<not> initialized p
      then ((1, Some (ErrorsNew ''protoc not initialized, call Init() first'')), p)
      else
        (let args = (if length args0 = 0 then [''protoc''] else args0);
             argc = length args
         in case alloc_args E args [] p of
              (Inl err, p1) \<Rightarrow> ((1, Some err), p1)
            | (Inr argPtrs, p1) \<Rightarrow>
                (case allocArgv E argPtrs p1 of
                   (Inl err, p2) \<Rightarrow> ((1, Some err), free_ptrs E argPtrs p2)
                 | (Inr argvPtr, p2) \<Rightarrow>
                     (case call_protocRun E (of_nat argc) (ucast argvPtr) p2 of
                        (res, p3) \<Rightarrow>
                          (let p4 = free_ptrs E argPtrs (freePtr E argvPtr p3)
                           in case res of
                                Inl err \<Rightarrow> ((1, Some (Errorf ''protoc_run failed: '' err '''')), p4)
                              | Inr r \<Rightarrow> ((sint (ucast r :: u32), None), p4))))))"

text \<open>
  \<^verbatim>\<open>Close\<close>, lines 367 to 380.  The results of \<^verbatim>\<open>protocDestroy.Call\<close> are
  discarded; the result of \<^verbatim>\<open>mod.Close\<close> is returned.
\<close>

definition Close :: "'g engine \<Rightarrow> 'g protoc \<Rightarrow> error option \<times> 'g protoc" where
  "Close E p =
     (let p1 = (if initialized p
                then (snd (call_protocDestroy E p))\<lparr>initialized := False\<rparr>
                else p)
      in call_modClose E p1)"

section \<open>Plugin callback gateway\<close>

text \<open>
  \<^verbatim>\<open>hostPluginCommunicate\<close>, lines 230 to 286.  The engine passes the nine parameters
  of the registered signature (lines 142 to 152) in \<^verbatim>\<open>stack[0..8]\<close> and reads the result
  from \<^verbatim>\<open>stack[0]\<close>; a shorter stack makes the index expressions panic, which is
  \<open>None\<close>.  The memory of the calling module \<^verbatim>\<open>mod\<close> is the memory of the one guest
  instance, the same that \<^verbatim>\<open>allocBytes\<close> writes to.
\<close>

fun hostPluginCommunicate ::
  "'g engine \<Rightarrow> u64 list \<Rightarrow> 'g protoc \<Rightarrow> (u64 list \<times> 'g protoc) option" where
  "hostPluginCommunicate E (s0 # s1 # s2 # s3 # s4 # s5 # s6 # s7 # s8 # rest) p =
     (let stack = s0 # s1 # s2 # s3 # s4 # s5 # s6 # s7 # s8 # rest;
          programPtr = (ucast s0 :: u32);
          programLen = (ucast s1 :: u32);
          searchPath = ((ucast s2 :: u32) \<noteq> 0);
          inputPtr = (ucast s3 :: u32);
          inputLen = (ucast s4 :: u32);
          outputPtrPtr = (ucast s5 :: u32);
          outputLenPtr = (ucast s6 :: u32);
          errorPtrPtr = (ucast s7 :: u32);
          errorLenPtr = (ucast s8 :: u32)
      in case memRead E programPtr programLen (guest p) of
           None \<Rightarrow> Some (stack[0 := EncodeI32 (- 1)], p)
         | Some programBytes \<Rightarrow>
             (let program = string_of_bytes programBytes
              in case memRead E inputPtr inputLen (guest p) of
                   None \<Rightarrow> Some (stack[0 := EncodeI32 (- 1)], p)
                 | Some inputData \<Rightarrow>
                     (case call_Communicate E program searchPath inputData p of
                        (Inl err, p1) \<Rightarrow>
                          (let errMsg = Error err;
                               p4 = (case allocBytes E (bytes_of_string errMsg) p1 of
                                       (Inr errPtr, p2) \<Rightarrow>
                                         writeUint32 E errorLenPtr (of_nat (length errMsg))
                                           (writePtr E errorPtrPtr errPtr p2)
                                     | (Inl allocErr, p2) \<Rightarrow> p2);
                               p5 = writePtr E outputPtrPtr 0 p4;
                               p6 = writeUint32 E outputLenPtr 0 p5
                           in Some (stack[0 := EncodeI32 1], p6))
                      | (Inr output, p1) \<Rightarrow>
                          (case allocBytes E output p1 of
                             (Inl allocErr, p2) \<Rightarrow> Some (stack[0 := EncodeI32 (- 1)], p2)
                           | (Inr outPtr, p2) \<Rightarrow>
                               (let p3 = writePtr E outputPtrPtr outPtr p2;
                                    p4 = writeUint32 E outputLenPtr (of_nat (length output)) p3;
                                    p5 = writePtr E errorPtrPtr 0 p4;
                                    p6 = writeUint32 E errorLenPtr 0 p5
                                in Some (stack[0 := 0], p6))))))"
| "hostPluginCommunicate E stack p = None"

section \<open>Default subprocess strategy\<close>

text \<open>
  \<^verbatim>\<open>DefaultPluginHandler.Communicate\<close>, lines 59 to 80.  The package \<^verbatim>\<open>os/exec\<close> is
  external: \<open>CommandContext\<close> builds the command value from the context and the program
  name, and \<open>cmd_Run\<close> runs a command on the bytes given as its standard input, in a state
  \<open>'s\<close> of the operating system, and yields the error of \<^verbatim>\<open>cmd.Run()\<close> with the bytes
  collected on standard output and on standard error.
\<close>

record ('c, 'cmd, 's) os_exec =
  CommandContext :: "'c \<Rightarrow> string \<Rightarrow> 'cmd"
  cmd_Run :: "'cmd \<Rightarrow> byte list \<Rightarrow> 's \<Rightarrow> (error option \<times> byte list \<times> byte list) \<times> 's"

text \<open>The command built in lines 60 to 65: both branches make the same call.\<close>

definition Communicate_cmd :: "('c, 'cmd, 's) os_exec \<Rightarrow> 'c \<Rightarrow> string \<Rightarrow> bool \<Rightarrow> 'cmd" where
  "Communicate_cmd X ctx program searchPath =
     (if searchPath then CommandContext X ctx program
      else CommandContext X ctx program)"

text \<open>
  The whole method: the command runs on the input, and an error of \<^verbatim>\<open>cmd.Run()\<close> is
  wrapped with the program name and, when there is any, the text of standard error.
\<close>

definition Communicate ::
  "('c, 'cmd, 's) os_exec \<Rightarrow> 'c \<Rightarrow> string \<Rightarrow> bool \<Rightarrow> byte list \<Rightarrow> 's
     \<Rightarrow> (error + byte list) \<times> 's" where
  "Communicate X ctx program searchPath input s =
     (let cmd = Communicate_cmd X ctx program searchPath
      in case cmd_Run X cmd input s of
           ((Some err, stdout, stderr), s') \<Rightarrow>
             if length stderr > 0
             then (Inl (Errorf (program @ '': '') err ('': '' @ string_of_bytes stderr)), s')
             else (Inl (Errorf (program @ '': '') err ''''), s')
         | ((None, stdout, stderr), s') \<Rightarrow> (Inr stdout, s'))"

section \<open>Outstanding allocations\<close>






text \<open>The memory writes of a record of calls that the engine accepted.\<close>

fun accepted_write :: "event \<Rightarrow> (u32 \<times> byte list) list" where
  "accepted_write (MemWrite addr bs ok) = (if ok then [(addr, bs)] else [])"
| "accepted_write ev = []"

definition accepted_writes :: "event list \<Rightarrow> (u32 \<times> byte list) list" where
  "accepted_writes log = concat (map accepted_write log)"

section \<open>Example engines\<close>

text \<open>
  A small engine for concrete runs.  Its state counts the calls of \<^verbatim>\<open>malloc\<close>: the first
  returns the pointer 16, the second 32 and every later one 48.  Memory has 64 bytes: a write is accepted
  when it ends within them.  Reading four bytes at address 0 gives the name \<^verbatim>\<open>plug\<close>,
  reading two bytes at address 8 gives the bytes 1 and 2, every other read is rejected.
  The plugin handler returns its input.
\<close>

definition demo_engine :: "nat engine" where
  "demo_engine =
     \<lparr> malloc = (\<lambda>n g. (Inr (if g = 0 then 16 else if g = 1 then 32 else 48), Suc g)),
       free = (\<lambda>x g. (None, g)),
       protocInit = (\<lambda>g. (Inr 0, g)),
       protocRun = (\<lambda>argc argv g. (Inr 0, g)),
       protocDestroy = (\<lambda>g. (None, g)),
       memRead = (\<lambda>addr n g.
          if addr = 0 \<and> n = 4 then Some [112, 108, 117, 103]
          else if addr = 8 \<and> n = 2 then Some [1, 2]
          else None),
       memWrite = (\<lambda>addr bs g. (unat addr + length bs \<le> 64, g)),
       modClose = (\<lambda>g. (None, g)),
       pluginHandler = (\<lambda>program searchPath input g. (Inr input, g)) \<rparr>"

text \<open>The same engine with an allocator that returns the zero pointer.\<close>

definition null_malloc_engine :: "nat engine" where
  "null_malloc_engine = demo_engine\<lparr>malloc := (\<lambda>n g. (Inr 0, Suc g))\<rparr>"

text \<open>The same engine with a memory that rejects every write.\<close>

definition no_write_engine :: "nat engine" where
  "no_write_engine = demo_engine\<lparr>memWrite := (\<lambda>addr bs g. (False, g))\<rparr>"

text \<open>
  The same engine with an allocator whose second block starts two bytes before the end of
  memory, so that a write of four bytes there is rejected.
\<close>

definition argv_oob_engine :: "nat engine" where
  "argv_oob_engine = demo_engine\<lparr>malloc := (\<lambda>n g. (Inr (if g = 0 then 16 else 62), Suc g))\<rparr>"

text \<open>The same engine with a plugin handler that fails.\<close>

definition failing_plugin_engine :: "nat engine" where
  "failing_plugin_engine =
     demo_engine\<lparr>pluginHandler := (\<lambda>program searchPath input g. (Inl (ErrorsNew ''gone''), g))\<rparr>"

text \<open>An engine whose plugin handler fails and whose allocator returns the zero pointer.\<close>

definition failing_plugin_null_malloc_engine :: "nat engine" where
  "failing_plugin_null_malloc_engine =
     failing_plugin_engine\<lparr>malloc := (\<lambda>n g. (Inr 0, Suc g))\<rparr>"

text \<open>The same engine with exports that trap or report a failure.\<close>

definition trapping_engine :: "nat engine" where
  "trapping_engine =
     demo_engine\<lparr>protocInit := (\<lambda>g. (Inr 1, g)),
                 protocRun := (\<lambda>argc argv g. (Inl (ErrorsNew ''trap''), g)),
                 protocDestroy := (\<lambda>g. (Some (ErrorsNew ''trap''), g))\<rparr>"

text \<open>The same engine with a module whose \<^verbatim>\<open>Close\<close> reports an error.\<close>

definition failing_close_engine :: "nat engine" where
  "failing_close_engine =
     demo_engine\<lparr>modClose := (\<lambda>g. (Some (ErrorsNew ''close failed''), g))\<rparr>"

text \<open>The same engine with a guest that exits with status \<open>-1\<close>.\<close>

definition exit_engine :: "nat engine" where
  "exit_engine = demo_engine\<lparr>protocRun := (\<lambda>argc argv g. (Inr 4294967295, g))\<rparr>"

text \<open>A fresh instance, before and after a successful \<^verbatim>\<open>Init\<close>.\<close>

definition created :: "nat protoc" where
  "created = \<lparr>initialized = False, guest = 0, calls = []\<rparr>"

definition ready :: "nat protoc" where
  "ready = \<lparr>initialized = True, guest = 0, calls = []\<rparr>"

text \<open>
  A call stack of the gateway: program name at 0 with length 4, search flag set, input at 8
  with length 2, and the four slots at 32, 36, 40 and 44.
\<close>

definition demo_stack :: "u64 list" where
  "demo_stack = [0, 4, 1, 8, 2, 32, 36, 40, 44]"

section \<open>Properties of the record of calls\<close>








lemma accepted_writes_append:
  "accepted_writes (xs @ ys) = accepted_writes xs @ accepted_writes ys"
  by (simp add: accepted_writes_def)

section \<open>What the memory helpers call\<close>

text \<open>Each call into the engine appends one event and leaves the flag alone.\<close>

lemma call_malloc_eq:
  "call_malloc E n p = (fst (malloc E n (guest p)),
     p\<lparr>guest := snd (malloc E n (guest p)), calls := calls p @ [CallMalloc n (fst (malloc E n (guest p)))]\<rparr>)"
  by (simp add: call_malloc_def split: prod.splits)

lemma call_free_snd:
  "snd (call_free E x p) = p\<lparr>guest := snd (free E x (guest p)), calls := calls p @ [CallFree x]\<rparr>"
  by (simp add: call_free_def split: prod.splits)

lemma mem_Write_eq:
  "mem_Write E a bs p = (fst (memWrite E a bs (guest p)),
     p\<lparr>guest := snd (memWrite E a bs (guest p)), calls := calls p @ [MemWrite a bs (fst (memWrite E a bs (guest p)))]\<rparr>)"
  by (simp add: mem_Write_def split: prod.splits)

lemma writePtr_calls:
  "calls (writePtr E a v p) = calls p @ [MemWrite a (PutUint32 v) (fst (memWrite E a (PutUint32 v) (guest p)))]"
  by (simp add: writePtr_def mem_Write_eq)

lemma writeUint32_calls:
  "calls (writeUint32 E a v p) = calls p @ [MemWrite a (PutUint32 v) (fst (memWrite E a (PutUint32 v) (guest p)))]"
  by (simp add: writeUint32_def mem_Write_eq)

lemma call_Communicate_eq:
  "call_Communicate E prog sp inp p =
     (fst (pluginHandler E prog sp inp (guest p)),
      p\<lparr>guest := snd (pluginHandler E prog sp inp (guest p)),
        calls := calls p @ [CallPluginHandler prog sp inp]\<rparr>)"
  by (simp add: call_Communicate_def split: prod.splits)




lemma allocBytes_err_writes:
  assumes "allocBytes E d p = (Inl e, p')"
  shows "accepted_writes (calls p') = accepted_writes (calls p)"
  using assms
  by (auto simp: allocBytes_def call_malloc_eq mem_Write_eq call_free_snd Let_def
      accepted_writes_def
      split: sum.splits if_splits bool.splits prod.splits)










section \<open>The three ways through the gateway\<close>


lemma gateway_handler_error:
  assumes "memRead E (ucast s0) (ucast s1) (guest p) = Some programBytes"
    and "memRead E (ucast s3) (ucast s4) (guest p) = Some inputData"
    and "pluginHandler E (string_of_bytes programBytes) ((ucast s2 :: u32) \<noteq> 0) inputData (guest p) = (Inl err, g1)"
  shows "hostPluginCommunicate E (s0 # s1 # s2 # s3 # s4 # s5 # s6 # s7 # s8 # rest) p =
     Some ((s0 # s1 # s2 # s3 # s4 # s5 # s6 # s7 # s8 # rest)[0 := EncodeI32 1],
       writeUint32 E (ucast s6) 0 (writePtr E (ucast s5) 0
         (case allocBytes E (bytes_of_string (Error err))
                 (p\<lparr>guest := g1, calls := calls p @
                    [CallPluginHandler (string_of_bytes programBytes) ((ucast s2 :: u32) \<noteq> 0) inputData]\<rparr>) of
            (Inr errPtr, p2) \<Rightarrow>
               writeUint32 E (ucast s8) (of_nat (length (Error err))) (writePtr E (ucast s7) errPtr p2)
          | (Inl allocErr, p2) \<Rightarrow> p2)))"
  using assms by (simp add: Let_def call_Communicate_eq)

lemma gateway_handler_success:
  assumes "memRead E (ucast s0) (ucast s1) (guest p) = Some programBytes"
    and "memRead E (ucast s3) (ucast s4) (guest p) = Some inputData"
    and "pluginHandler E (string_of_bytes programBytes) ((ucast s2 :: u32) \<noteq> 0) inputData (guest p) = (Inr output, g1)"
  shows "hostPluginCommunicate E (s0 # s1 # s2 # s3 # s4 # s5 # s6 # s7 # s8 # rest) p =
     (case allocBytes E output
                 (p\<lparr>guest := g1, calls := calls p @
                    [CallPluginHandler (string_of_bytes programBytes) ((ucast s2 :: u32) \<noteq> 0) inputData]\<rparr>) of
        (Inl allocErr, p2) \<Rightarrow>
           Some ((s0 # s1 # s2 # s3 # s4 # s5 # s6 # s7 # s8 # rest)[0 := EncodeI32 (- 1)], p2)
      | (Inr outPtr, p2) \<Rightarrow>
           Some ((s0 # s1 # s2 # s3 # s4 # s5 # s6 # s7 # s8 # rest)[0 := 0],
             writeUint32 E (ucast s8) 0 (writePtr E (ucast s7) 0
               (writeUint32 E (ucast s6) (of_nat (length output)) (writePtr E (ucast s5) outPtr p2)))))"
  using assms by (simp add: Let_def call_Communicate_eq split: prod.splits sum.splits)


lemma two_writes:
  "\<exists>b1 b2. calls (writeUint32 E a2 v2 (writePtr E a1 v1 q)) =
     calls q @ [MemWrite a1 (PutUint32 v1) b1, MemWrite a2 (PutUint32 v2) b2]"
  by (simp add: writePtr_calls writeUint32_calls)

section \<open>Evaluating the example engines\<close>

lemmas example_defs =
  demo_engine_def null_malloc_engine_def no_write_engine_def argv_oob_engine_def
  failing_plugin_engine_def trapping_engine_def exit_engine_def created_def ready_def
  demo_stack_def failing_plugin_null_malloc_engine_def failing_close_engine_def

lemmas bridge_defs =
  call_malloc_def call_free_def call_protocInit_def call_protocRun_def call_protocDestroy_def
  call_modClose_def mem_Write_def call_Communicate_def allocBytes_def allocString_def
  allocArgv_def freePtr_def writePtr_def writeUint32_def Init_def Run_def Close_def
  bytes_of_string_def string_of_bytes_def PutUint32_def EncodeI32_def

lemma string_of_bytes_plug: "string_of_bytes [112, 108, 117, 103] = ''plug''"
  by code_simp

lemma EncodeI32_minus_one: "EncodeI32 (- 1) = 4294967295"
  by code_simp

lemma EncodeI32_one: "EncodeI32 1 = 1"
  by code_simp

lemmas gateway_evals =
  call_malloc_def call_free_def mem_Write_def call_Communicate_def allocBytes_def
  writePtr_def writeUint32_def bytes_of_string_def PutUint32_def
  string_of_bytes_plug EncodeI32_minus_one EncodeI32_one Let_def

section \<open>The dispatcher\<close>

lemma Run_reaches_export:
  assumes i: "initialized p"
    and a: "alloc_args E (if length args = 0 then [''protoc''] else args) [] p = (Inr argPtrs, p1)"
    and v: "allocArgv E argPtrs p1 = (Inr argvPtr, p2)"
  shows "Run E args p =
     (case fst (protocRun E (of_nat (length (if length args = 0 then [''protoc''] else args))) (ucast argvPtr) (guest p2)) of
        Inl err \<Rightarrow> (1, Some (Errorf ''protoc_run failed: '' err ''''))
      | Inr r \<Rightarrow> (sint (ucast r :: u32), None),
      free_ptrs E argPtrs (freePtr E argvPtr (snd (call_protocRun E (of_nat (length (if length args = 0 then [''protoc''] else args))) (ucast argvPtr) p2))))"
  using i a v
  by (simp add: Run_def Let_def call_protocRun_def split: prod.splits sum.splits)






text \<open>
  Claim C5.  On an initialized instance whose arguments and pointer array were allocated,
  the run export is invoked.  When it returns a result, \<^verbatim>\<open>Run\<close> returns the low 32 bits
  of that result read as a signed number, zero or not, and no error.  When the invocation
  itself fails, \<^verbatim>\<open>Run\<close> returns 1 and the error of the engine wrapped as
  \<^verbatim>\<open>protoc_run failed\<close>.
\<close>

theorem Run_exit_status:
  fixes E :: "'g engine" and args :: "string list" and p :: "'g protoc"
  assumes "initialized p"
    and "alloc_args E (if length args = 0 then [''protoc''] else args) [] p = (Inr argPtrs, p1)"
    and "allocArgv E argPtrs p1 = (Inr argvPtr, p2)"
  shows
    "(\<forall>r g. protocRun E (of_nat (length (if length args = 0 then [''protoc''] else args)))
               (ucast argvPtr) (guest p2) = (Inr r, g)
        \<longrightarrow> fst (Run E args p) = (sint (ucast r :: u32), None))
     \<and> (\<forall>err g. protocRun E (of_nat (length (if length args = 0 then [''protoc''] else args)))
               (ucast argvPtr) (guest p2) = (Inl err, g)
        \<longrightarrow> fst (Run E args p) = (1, Some (Errorf ''protoc_run failed: '' err '''')))"
  using Run_reaches_export [OF assms] by simp

text \<open>
  An instance of claim C5: a guest that exits with status \<open>-1\<close>, and a run export that
  traps.
\<close>

theorem Run_exit_status_witness:
  "initialized ready
   \<and> protocRun exit_engine 1 32 2 = (Inr 4294967295, 2)
   \<and> fst (Run exit_engine [''a''] ready) = (- 1, None)
   \<and> protocRun trapping_engine 1 32 2 = (Inl (ErrorsNew ''trap''), 2)
   \<and> fst (Run trapping_engine [''a''] ready) =
        (1, Some (Errorf ''protoc_run failed: '' (ErrorsNew ''trap'') ''''))"
proof -
  let ?p1 = "\<lparr>initialized = True, guest = 1,
      calls = [CallMalloc 2 (Inr 16), MemWrite 16 [97, 0] True]\<rparr> :: nat protoc"
  let ?p2 = "\<lparr>initialized = True, guest = 2,
      calls = [CallMalloc 2 (Inr 16), MemWrite 16 [97, 0] True,
               CallMalloc 4 (Inr 32), MemWrite 32 [16, 0, 0, 0] True]\<rparr> :: nat protoc"
  have i: "initialized ready"
    by (simp add: ready_def)
  have a: "alloc_args exit_engine (if length [''a''] = 0 then [''protoc''] else [''a'']) [] ready
      = (Inr [16], ?p1)"
    by (simp add: example_defs bridge_defs)
  have v: "allocArgv exit_engine [16] ?p1 = (Inr 32, ?p2)"
    by (simp add: example_defs bridge_defs)
  have a': "alloc_args trapping_engine (if length [''a''] = 0 then [''protoc''] else [''a'']) [] ready
      = (Inr [16], ?p1)"
    by (simp add: example_defs bridge_defs)
  have v': "allocArgv trapping_engine [16] ?p1 = (Inr 32, ?p2)"
    by (simp add: example_defs bridge_defs)
  have r: "protocRun exit_engine 1 32 2 = (Inr 4294967295, 2)"
    by (simp add: example_defs)
  have r': "protocRun trapping_engine 1 32 2 = (Inl (ErrorsNew ''trap''), 2)"
    by (simp add: example_defs)
  have "fst (Run exit_engine [''a''] ready) = (- 1, None)"
    using Run_exit_status [OF i a v] r by simp
  moreover have "fst (Run trapping_engine [''a''] ready) =
      (1, Some (Errorf ''protoc_run failed: '' (ErrorsNew ''trap'') ''''))"
    using Run_exit_status [OF i a' v'] r' by simp
  ultimately show ?thesis using i r r' by simp
qed

text \<open>
  Claim C6.  On an instance that is not initialized, \<^verbatim>\<open>Run\<close> returns 1 with the error
  \<^verbatim>\<open>protoc not initialized, call Init() first\<close> for every argument list, and the
  instance is unchanged: the state of the engine is the same and the record of calls has
  grown by nothing, so neither the allocator nor any other entry point was called.
\<close>

theorem Run_before_Init:
  "\<not> initialized p \<Longrightarrow>
     Run E args p = ((1, Some (ErrorsNew ''protoc not initialized, call Init() first'')), p)"
  by (simp add: Run_def)

text \<open>An instance of claim C6: a fresh instance and two arguments.\<close>

theorem Run_before_Init_witness:
  "\<not> initialized created
   \<and> Run demo_engine [''protoc'', ''--version''] created =
       ((1, Some (ErrorsNew ''protoc not initialized, call Init() first'')), created)
   \<and> calls (snd (Run demo_engine [''protoc'', ''--version''] created)) = []"
  using Run_before_Init [of created demo_engine "[''protoc'', ''--version'']"]
  by (simp add: created_def)



text \<open>
  Claim C8, amended.  \<^verbatim>\<open>Close\<close> is not without effect on an instance that is not
  initialized: it closes the module and returns the result of that.  What holds is this.
  On an instance that is not initialized (never initialized, or closed before)
  \<^verbatim>\<open>Close\<close> makes one call, \<^verbatim>\<open>mod.Close\<close>, and returns its result; it does not call
  the destroy export.  After every \<^verbatim>\<open>Close\<close> the instance is not initialized, so a
  second \<^verbatim>\<open>Close\<close> adds only a second \<^verbatim>\<open>mod.Close\<close>.  On an initialized instance
  \<^verbatim>\<open>Close\<close> calls the destroy export once and then \<^verbatim>\<open>mod.Close\<close>, and its result is
  the result of \<^verbatim>\<open>mod.Close\<close> alone: an error of the destroy export is dropped.
\<close>

theorem Close_destroy_guarded:
  fixes E :: "'g engine" and p :: "'g protoc"
  shows
    "(\<not> initialized p
        \<longrightarrow> calls (snd (Close E p)) = calls p @ [CallModClose]
          \<and> fst (Close E p) = fst (modClose E (guest p)))
     \<and> \<not> initialized (snd (Close E p))
     \<and> calls (snd (Close E (snd (Close E p)))) = calls (snd (Close E p)) @ [CallModClose]
     \<and> (initialized p
        \<longrightarrow> calls (snd (Close E p)) = calls p @ [CallProtocDestroy, CallModClose]
          \<and> fst (Close E p) = fst (modClose E (snd (protocDestroy E (guest p)))))"
  by (simp add: Close_def call_modClose_def call_protocDestroy_def Let_def split: prod.splits)

text \<open>
  An instance of claim C8 as amended: a destroy export that fails, on a fresh and on an
  initialized instance, and a second \<^verbatim>\<open>Close\<close>.
\<close>

theorem Close_destroy_guarded_witness:
  "\<not> initialized created
   \<and> calls (snd (Close trapping_engine created)) = [CallModClose]
   \<and> fst (Close trapping_engine created) = None
   \<and> initialized ready
   \<and> protocDestroy trapping_engine (guest ready) = (Some (ErrorsNew ''trap''), 0)
   \<and> calls (snd (Close trapping_engine ready)) = [CallProtocDestroy, CallModClose]
   \<and> fst (Close trapping_engine ready) = None
   \<and> calls (snd (Close trapping_engine (snd (Close trapping_engine ready)))) =
        [CallProtocDestroy, CallModClose, CallModClose]"
  using Close_destroy_guarded [of created trapping_engine]
    Close_destroy_guarded [of ready trapping_engine]
  by (simp add: example_defs Close_def call_modClose_def call_protocDestroy_def)

text \<open>
  Claim C8 as stated fails: on a fresh instance \<^verbatim>\<open>Close\<close> calls \<^verbatim>\<open>mod.Close\<close> and
  the instance is not what it was; and when \<^verbatim>\<open>mod.Close\<close> reports an error, so does
  \<^verbatim>\<open>Close\<close>.
\<close>

theorem Close_noop_counterexample:
  "\<not> initialized created
   \<and> Close demo_engine created =
       (None, \<lparr>initialized = False, guest = 0, calls = [CallModClose]\<rparr>)
   \<and> snd (Close demo_engine created) \<noteq> created
   \<and> Close failing_close_engine created =
       (Some (ErrorsNew ''close failed''),
        \<lparr>initialized = False, guest = 0, calls = [CallModClose]\<rparr>)"
  by (simp add: example_defs Close_def call_modClose_def)

text \<open>
  Claim C4.  The claim asks that a rejected write of a pointer into the argv array makes
  \<^verbatim>\<open>Run\<close> free what it allocated and return an error.  Here the allocator places the
  array two bytes before the end of memory and the engine rejects the write of the one
  pointer; \<^verbatim>\<open>allocArgv\<close> drops that result, the run export is invoked on the unwritten
  array, and \<^verbatim>\<open>Run\<close> returns the exit status 0 with no error.
\<close>

theorem Run_ignores_rejected_argv_write:
  "Run argv_oob_engine [''protoc''] ready =
     ((0, None),
      \<lparr>initialized = True, guest = 2,
       calls = [CallMalloc 7 (Inr 16), MemWrite 16 [112, 114, 111, 116, 111, 99, 0] True,
                CallMalloc 4 (Inr 62), MemWrite 62 [16, 0, 0, 0] False,
                CallProtocRun 1 62, CallFree 62, CallFree 16]\<rparr>)"
  by (simp add: example_defs bridge_defs)

section \<open>The memory marshaler\<close>



section \<open>The plugin callback gateway\<close>




text \<open>
  Claim C10.  When the handler succeeded and the allocation of the output buffer fails,
  the gateway stores \<open>-1\<close> and stops in the state the failed allocation left: it issues no
  write to any of the four slots, and no write was accepted since the invocation began.
  When the handler failed and the allocation of the buffer for the error text fails, the
  gateway stores 1 and its calls after the failed allocation are the two writes of zero to
  the output slots: none to the error slots.
\<close>

theorem hostPluginCommunicate_alloc_failure:
  fixes E :: "'g engine" and p :: "'g protoc"
    and sProgramPtr sProgramLen sSearchPath sInputPtr sInputLen :: u64
    and sOutputPtrPtr sOutputLenPtr sErrorPtrPtr sErrorLenPtr :: u64 and rest :: "u64 list"
  defines "stack \<equiv> sProgramPtr # sProgramLen # sSearchPath # sInputPtr # sInputLen
                    # sOutputPtrPtr # sOutputLenPtr # sErrorPtrPtr # sErrorLenPtr # rest"
    and "readProgram \<equiv> memRead E (ucast sProgramPtr) (ucast sProgramLen) (guest p)"
    and "readInput \<equiv> memRead E (ucast sInputPtr) (ucast sInputLen) (guest p)"
    and "searchPath \<equiv> ((ucast sSearchPath :: u32) \<noteq> 0)"
    and "outputPtrPtr \<equiv> (ucast sOutputPtrPtr :: u32)"
    and "outputLenPtr \<equiv> (ucast sOutputLenPtr :: u32)"
  shows
    "(\<forall>programBytes inputData output g1 allocErr p2.
        readProgram = Some programBytes \<and> readInput = Some inputData
        \<and> pluginHandler E (string_of_bytes programBytes) searchPath inputData (guest p) = (Inr output, g1)
        \<and> allocBytes E output
              (p\<lparr>guest := g1, calls := calls p @
                  [CallPluginHandler (string_of_bytes programBytes) searchPath inputData]\<rparr>)
            = (Inl allocErr, p2)
        \<longrightarrow> hostPluginCommunicate E stack p = Some (stack[0 := EncodeI32 (- 1)], p2)
          \<and> accepted_writes (calls p2) = accepted_writes (calls p))
     \<and> (\<forall>programBytes inputData err g1 allocErr p2.
        readProgram = Some programBytes \<and> readInput = Some inputData
        \<and> pluginHandler E (string_of_bytes programBytes) searchPath inputData (guest p) = (Inl err, g1)
        \<and> allocBytes E (bytes_of_string (Error err))
              (p\<lparr>guest := g1, calls := calls p @
                  [CallPluginHandler (string_of_bytes programBytes) searchPath inputData]\<rparr>)
            = (Inl allocErr, p2)
        \<longrightarrow> (\<exists>p' b3 b4.
              hostPluginCommunicate E stack p = Some (stack[0 := EncodeI32 1], p')
              \<and> calls p' = calls p2 @ [MemWrite outputPtrPtr (PutUint32 0) b3,
                                       MemWrite outputLenPtr (PutUint32 0) b4]
              \<and> accepted_writes (calls p2) = accepted_writes (calls p)))"
proof (intro conjI allI impI)
  fix programBytes inputData outData g1 allocErr p2
  let ?p1 = "p\<lparr>guest := g1, calls := calls p @
      [CallPluginHandler (string_of_bytes programBytes) searchPath inputData]\<rparr>"
  assume h: "readProgram = Some programBytes \<and> readInput = Some inputData
      \<and> pluginHandler E (string_of_bytes programBytes) searchPath inputData (guest p) = (Inr outData, g1)
      \<and> allocBytes E outData ?p1 = (Inl allocErr, p2)"
  then show "hostPluginCommunicate E stack p = Some (stack[0 := EncodeI32 (- 1)], p2)"
    using gateway_handler_success [of E sProgramPtr sProgramLen p programBytes sInputPtr sInputLen
        inputData sSearchPath outData g1 sOutputPtrPtr sOutputLenPtr sErrorPtrPtr sErrorLenPtr rest]
    unfolding stack_def readProgram_def readInput_def searchPath_def outputPtrPtr_def
      outputLenPtr_def
    by simp
  from h have "allocBytes E outData ?p1 = (Inl allocErr, p2)" by simp
  from allocBytes_err_writes [OF this]
  show "accepted_writes (calls p2) = accepted_writes (calls p)"
    by (simp add: accepted_writes_append) (simp add: accepted_writes_def)
next
  fix programBytes inputData err g1 allocErr p2
  let ?p1 = "p\<lparr>guest := g1, calls := calls p @
      [CallPluginHandler (string_of_bytes programBytes) searchPath inputData]\<rparr>"
  assume h: "readProgram = Some programBytes \<and> readInput = Some inputData
      \<and> pluginHandler E (string_of_bytes programBytes) searchPath inputData (guest p) = (Inl err, g1)
      \<and> allocBytes E (bytes_of_string (Error err)) ?p1 = (Inl allocErr, p2)"
  let ?p' = "writeUint32 E outputLenPtr 0 (writePtr E outputPtrPtr 0 p2)"
  have g: "hostPluginCommunicate E stack p = Some (stack[0 := EncodeI32 1], ?p')"
    using h gateway_handler_error [of E sProgramPtr sProgramLen p programBytes sInputPtr sInputLen
        inputData sSearchPath err g1 sOutputPtrPtr sOutputLenPtr sErrorPtrPtr sErrorLenPtr rest]
    unfolding stack_def readProgram_def readInput_def searchPath_def outputPtrPtr_def
      outputLenPtr_def
    by simp
  obtain b3 b4 where t: "calls ?p' = calls p2 @ [MemWrite outputPtrPtr (PutUint32 0) b3,
      MemWrite outputLenPtr (PutUint32 0) b4]"
    using two_writes [of E outputLenPtr 0 outputPtrPtr 0 p2] by blast
  from h have "allocBytes E (bytes_of_string (Error err)) ?p1 = (Inl allocErr, p2)" by simp
  from allocBytes_err_writes [OF this]
  have w: "accepted_writes (calls p2) = accepted_writes (calls p)"
    by (simp add: accepted_writes_append) (simp add: accepted_writes_def)
  show "\<exists>p' b3 b4.
      hostPluginCommunicate E stack p = Some (stack[0 := EncodeI32 1], p')
      \<and> calls p' = calls p2 @ [MemWrite outputPtrPtr (PutUint32 0) b3,
                               MemWrite outputLenPtr (PutUint32 0) b4]
      \<and> accepted_writes (calls p2) = accepted_writes (calls p)"
    using g t w by blast
qed

text \<open>
  An instance of claim C10: a handler that succeeds with a memory that rejects the write of
  the output, and a handler that fails with an allocator that returns the zero pointer.
\<close>

theorem hostPluginCommunicate_alloc_failure_witness:
  "memRead no_write_engine (ucast (0 :: u64)) (ucast (4 :: u64)) (guest ready)
       = Some [112, 108, 117, 103]
   \<and> memRead no_write_engine (ucast (8 :: u64)) (ucast (2 :: u64)) (guest ready) = Some [1, 2]
   \<and> pluginHandler no_write_engine ''plug'' True [1, 2] (guest ready) = (Inr [1, 2], 0)
   \<and> allocBytes no_write_engine [1, 2]
         \<lparr>initialized = True, guest = 0, calls = [CallPluginHandler ''plug'' True [1, 2]]\<rparr>
       = (Inl (ErrorsNew ''failed to write to memory''),
          \<lparr>initialized = True, guest = 1,
           calls = [CallPluginHandler ''plug'' True [1, 2], CallMalloc 2 (Inr 16),
                    MemWrite 16 [1, 2] False, CallFree 16]\<rparr>)
   \<and> hostPluginCommunicate no_write_engine demo_stack ready =
       Some (demo_stack[0 := EncodeI32 (- 1)],
          \<lparr>initialized = True, guest = 1,
           calls = [CallPluginHandler ''plug'' True [1, 2], CallMalloc 2 (Inr 16),
                    MemWrite 16 [1, 2] False, CallFree 16]\<rparr>)
   \<and> pluginHandler failing_plugin_null_malloc_engine ''plug'' True [1, 2] (guest ready)
       = (Inl (ErrorsNew ''gone''), 0)
   \<and> allocBytes failing_plugin_null_malloc_engine (bytes_of_string (Error (ErrorsNew ''gone'')))
         \<lparr>initialized = True, guest = 0, calls = [CallPluginHandler ''plug'' True [1, 2]]\<rparr>
       = (Inl (ErrorsNew ''malloc returned null''),
          \<lparr>initialized = True, guest = 1,
           calls = [CallPluginHandler ''plug'' True [1, 2], CallMalloc 4 (Inr 0)]\<rparr>)
   \<and> hostPluginCommunicate failing_plugin_null_malloc_engine demo_stack ready =
       Some (demo_stack[0 := EncodeI32 1],
          \<lparr>initialized = True, guest = 1,
           calls = [CallPluginHandler ''plug'' True [1, 2], CallMalloc 4 (Inr 0),
                    MemWrite 32 [0, 0, 0, 0] True, MemWrite 36 [0, 0, 0, 0] True]\<rparr>)"
  using
    hostPluginCommunicate_alloc_failure [where E = no_write_engine and p = ready
      and sProgramPtr = 0 and sProgramLen = 4 and sSearchPath = 1 and sInputPtr = 8
      and sInputLen = 2 and sOutputPtrPtr = 32 and sOutputLenPtr = 36 and sErrorPtrPtr = 40
      and sErrorLenPtr = 44 and rest = "[]"]
    hostPluginCommunicate_alloc_failure [where E = failing_plugin_null_malloc_engine and p = ready
      and sProgramPtr = 0 and sProgramLen = 4 and sSearchPath = 1 and sInputPtr = 8
      and sInputLen = 2 and sOutputPtrPtr = 32 and sOutputLenPtr = 36 and sErrorPtrPtr = 40
      and sErrorLenPtr = 44 and rest = "[]"]
  by (simp add: example_defs gateway_evals)

section \<open>The default subprocess strategy\<close>

text \<open>
  Claim C9.  For every program name, input, context and state of the operating system,
  \<^verbatim>\<open>Communicate\<close> builds the same command and returns the same result whether the
  search-path flag is true or false.
\<close>

theorem Communicate_ignores_searchPath:
  "Communicate_cmd X ctx program True = Communicate_cmd X ctx program False
   \<and> Communicate X ctx program True input s = Communicate X ctx program False input s"
  by (simp add: Communicate_def Communicate_cmd_def)

end
